theory Spec2Isabelle
  imports Complex_Main "HOL-Library.Sublist" "HOL-Library.AList"
begin

section \<open>Python values, exceptions and string functions\<close>

text \<open>
  The script \<^verbatim>\<open>src/run.py\<close> is one class, \<^verbatim>\<open>MultiOperationsScript\<close>, whose
  methods talk to four outside systems (a secret store, a SQL server, an SSH host and a
  WinRM host) and write a log. The model below keeps the methods' names and their order
  of statements. Strings are lists of characters (code points below 256); integers are
  unbounded, as in Python.
\<close>

datatype exn =
    ValueError string
  | TypeError string
  | KeyError string
  | IndexError string
  | FileNotFoundError string
  | RuntimeError string
  | LibraryError string

text \<open>\<^verbatim>\<open>str(e)\<close>: the message of an exception.\<close>

fun exn_str :: "exn \<Rightarrow> string" where
  "exn_str (ValueError m) = m"
| "exn_str (TypeError m) = m"
| "exn_str (KeyError m) = [CHR 0x27] @ m @ [CHR 0x27]"
| "exn_str (IndexError m) = m"
| "exn_str (FileNotFoundError m) = m"
| "exn_str (RuntimeError m) = m"
| "exn_str (LibraryError m) = m"

text \<open>What \<^verbatim>\<open>json.loads\<close> can return.\<close>

datatype pyval =
    PyNone
  | PyBool bool
  | PyInt int
  | PyFloat real
  | PyStr string
  | PyList "pyval list"
  | PyDict "(string \<times> pyval) list"

subsection \<open>Decimal rendering of integers\<close>

definition digit_char :: "nat \<Rightarrow> char" where
  "digit_char d = ''0123456789'' ! d"

function digits_nat :: "nat \<Rightarrow> string" where
  "digits_nat n =
     (if n < 10 then [digit_char n] else digits_nat (n div 10) @ [digit_char (n mod 10)])"
  by pat_completeness auto
termination
  by (relation "measure id") auto

declare digits_nat.simps [simp del]

text \<open>\<^verbatim>\<open>str(i)\<close> for an integer, as an f-string renders it.\<close>

definition str_int :: "int \<Rightarrow> string" where
  "str_int i = (if i < 0 then CHR ''-'' # digits_nat (nat (- i)) else digits_nat (nat i))"

text \<open>\<^verbatim>\<open>int(x)\<close> for a float: truncation toward zero.\<close>

definition int_of_float :: "real \<Rightarrow> int" where
  "int_of_float x = (if 0 \<le> x then \<lfloor>x\<rfloor> else \<lceil>x\<rceil>)"

subsection \<open>String methods\<close>

text \<open>\<^verbatim>\<open>sep.join(xs)\<close>.\<close>

fun join :: "string \<Rightarrow> string list \<Rightarrow> string" where
  "join sep [] = []"
| "join sep [x] = x"
| "join sep (x # y # ys) = x @ sep @ join sep (y # ys)"

text \<open>
  \<^verbatim>\<open>s.replace(old, new)\<close> for a non-empty \<^verbatim>\<open>old\<close>: the occurrences are replaced from
  left to right, without overlap. (With an empty \<^verbatim>\<open>old\<close> the string is returned as it
  is; the script only calls it with the literal \<^verbatim>\<open>'sqlserver://'\<close>.)
\<close>

function replace :: "string \<Rightarrow> string \<Rightarrow> string \<Rightarrow> string" where
  "replace old new [] = []"
| "replace old new (c # cs) =
     (if old \<noteq> [] \<and> prefix old (c # cs)
      then new @ replace old new (drop (length old) (c # cs))
      else c # replace old new cs)"
  by pat_completeness auto
termination
  by (relation "measure (\<lambda>(old, new, s). length s)") auto

text \<open>\<^verbatim>\<open>s.split(d)\<close> for a one-character separator: never an empty list.\<close>

fun split_on :: "char \<Rightarrow> string \<Rightarrow> string list" where
  "split_on d [] = [[]]"
| "split_on d (c # cs) =
     (if c = d then [] # split_on d cs
      else (case split_on d cs of [] \<Rightarrow> [[c]] | r # rs \<Rightarrow> (c # r) # rs))"

text \<open>\<^verbatim>\<open>s.strip()\<close>: the white space of Python's \<^verbatim>\<open>str.isspace\<close> below code point 256.\<close>

definition is_space :: "char \<Rightarrow> bool" where
  "is_space c = (c \<in> set [CHR 0x09, CHR 0x0A, CHR 0x0B, CHR 0x0C, CHR 0x0D,
     CHR 0x1C, CHR 0x1D, CHR 0x1E, CHR 0x1F, CHR 0x20, CHR 0x85, CHR 0xA0])"

definition strip :: "string \<Rightarrow> string" where
  "strip s = rev (dropWhile is_space (rev (dropWhile is_space s)))"

text \<open>\<^verbatim>\<open>sub in s\<close> for two strings, and the number of places where \<^verbatim>\<open>sub\<close> starts in \<^verbatim>\<open>s\<close>.\<close>

fun str_contains :: "string \<Rightarrow> string \<Rightarrow> bool" where
  "str_contains sub [] = (sub = [])"
| "str_contains sub (c # cs) = (prefix sub (c # cs) \<or> str_contains sub cs)"

fun count_sub :: "string \<Rightarrow> string \<Rightarrow> nat" where
  "count_sub sub [] = (if sub = [] then 1 else 0)"
| "count_sub sub (c # cs) = (if prefix sub (c # cs) then 1 else 0) + count_sub sub cs"

subsection \<open>Membership and subscription on parsed JSON\<close>

text \<open>\<^verbatim>\<open>key in container\<close> for a string key; Python raises TypeError on a container
  that is not iterable.\<close>

fun py_contains :: "string \<Rightarrow> pyval \<Rightarrow> exn + bool" where
  "py_contains k (PyDict kvs) = Inr (map_of kvs k \<noteq> None)"
| "py_contains k (PyList xs) = Inr (List.member xs (PyStr k))"
| "py_contains k (PyStr s) = Inr (str_contains k s)"
| "py_contains k PyNone = Inl (TypeError ''argument of type NoneType is not iterable'')"
| "py_contains k (PyBool b) = Inl (TypeError ''argument of type bool is not iterable'')"
| "py_contains k (PyInt i) = Inl (TypeError ''argument of type int is not iterable'')"
| "py_contains k (PyFloat f) = Inl (TypeError ''argument of type float is not iterable'')"

text \<open>\<^verbatim>\<open>container[key]\<close> for a string key.\<close>

fun py_getitem :: "pyval \<Rightarrow> string \<Rightarrow> exn + pyval" where
  "py_getitem (PyDict kvs) k = (case map_of kvs k of None \<Rightarrow> Inl (KeyError k) | Some v \<Rightarrow> Inr v)"
| "py_getitem (PyList xs) k = Inl (TypeError ''list indices must be integers or slices, not str'')"
| "py_getitem (PyStr s) k = Inl (TypeError ''string indices must be integers, not str'')"
| "py_getitem PyNone k = Inl (TypeError ''NoneType object is not subscriptable'')"
| "py_getitem (PyBool b) k = Inl (TypeError ''bool object is not subscriptable'')"
| "py_getitem (PyInt i) k = Inl (TypeError ''int object is not subscriptable'')"
| "py_getitem (PyFloat f) k = Inl (TypeError ''float object is not subscriptable'')"

text \<open>
  \<^verbatim>\<open>all(key in credentials for key in ['username', 'password'])\<close>: the generator is
  consumed from the left, stops at the first false test, and an exception of a test
  leaves \<^verbatim>\<open>all\<close>.
\<close>

fun all_keys_in :: "string list \<Rightarrow> pyval \<Rightarrow> exn + bool" where
  "all_keys_in [] c = Inr True"
| "all_keys_in (k # ks) c =
     (case py_contains k c of
        Inl e \<Rightarrow> Inl e
      | Inr b \<Rightarrow> if b then all_keys_in ks c else Inr False)"

section \<open>The outside world and the program state\<close>

text \<open>The parsed command line (\<^verbatim>\<open>self.args\<close>), as \<^verbatim>\<open>_setup_argument_parser\<close> declares it.\<close>

record args =
  mssql_url :: string
  aws_secret_name :: string
  aws_region :: string
  ssh_host :: string
  ssh_user :: string
  ssh_key_path :: string
  winrm_host :: string
  winrm_user :: string
  winrm_password :: string
  winrm_port :: int
  winrm_use_ssl :: bool

text \<open>A cell of a result row, and \<^verbatim>\<open>str\<close> of it as an f-string renders it.\<close>

datatype dbval = DbNull | DbInt int | DbStr string | DbDatetime string

fun dbval_str :: "dbval \<Rightarrow> string" where
  "dbval_str DbNull = ''None''"
| "dbval_str (DbInt i) = str_int i"
| "dbval_str (DbStr s) = s"
| "dbval_str (DbDatetime s) = s"

type_synonym row = "dbval list"

text \<open>
  The calls the script makes on the database driver: \<^verbatim>\<open>pymssql.connect\<close> (server, port,
  user, password, database), \<^verbatim>\<open>conn.cursor()\<close>, \<^verbatim>\<open>conn.autocommit(b)\<close>,
  \<^verbatim>\<open>cursor.execute(sql)\<close> or \<^verbatim>\<open>cursor.execute(sql, params)\<close>, \<^verbatim>\<open>conn.commit()\<close>,
  \<^verbatim>\<open>cursor.fetchall()\<close> and \<^verbatim>\<open>conn.close()\<close>.
\<close>

datatype dbcall =
    Connect string int pyval pyval "string option"
  | Cursor
  | Autocommit bool
  | Execute string "string list option"
  | Commit
  | Fetchall
  | Close

text \<open>What \<^verbatim>\<open>exec_command\<close> hands back: the outcome of \<^verbatim>\<open>stdout.read().decode()\<close> and
  of \<^verbatim>\<open>stderr.read().decode()\<close>.\<close>

record ssh_output =
  so_stdout :: "exn + string"
  so_stderr :: "exn + string"

text \<open>What \<^verbatim>\<open>session.run_ps\<close> hands back; the two streams are already decoded with
  \<^verbatim>\<open>decode('utf-8', 'ignore')\<close>, which cannot fail.\<close>

record ps_result =
  status_code :: int
  std_out :: string
  std_err :: string

text \<open>
  The outside world. Each field is the outcome of one kind of library call, an
  exception (\<open>Inl\<close>) or a value. The SQL server has a state of its own, of any type
  \<open>'sv\<close>, which every driver call may change; the other systems answer by the
  arguments of the call. \<open>w_int\<close> is Python's \<^verbatim>\<open>int(str)\<close>, \<open>w_time\<close> the reading of
  \<^verbatim>\<open>time.time()\<close>, \<open>w_abspath\<close> is \<^verbatim>\<open>os.path.abspath\<close>, \<open>sys_argv\<close> is
  \<^verbatim>\<open>sys.argv\<close>.
\<close>

record 'sv world =
  sys_argv :: "string list"
  w_platform :: string
  w_python_version :: string
  w_get_secret_value :: "string \<Rightarrow> string \<Rightarrow> exn + string option"
  w_json_loads :: "string \<Rightarrow> exn + pyval"
  w_int :: "string \<Rightarrow> exn + int"
  w_time :: real
  w_db :: "'sv \<Rightarrow> nat \<Rightarrow> dbcall \<Rightarrow> exn + (row list \<times> 'sv)"
  w_isfile :: "string \<Rightarrow> bool"
  w_ssh_connect :: "string \<Rightarrow> string \<Rightarrow> string \<Rightarrow> int \<Rightarrow> exn option"
  w_ssh_exec :: "string \<Rightarrow> exn + ssh_output"
  w_ssh_close :: "exn option"
  w_winrm_session :: "string \<Rightarrow> string \<times> string \<Rightarrow> string \<Rightarrow> string option \<Rightarrow> exn option"
  w_run_ps :: "string \<Rightarrow> exn + ps_result"
  w_abspath :: "string \<Rightarrow> string"

datatype level = INFO | WARNING | ERROR

text \<open>What a run does that can be seen from outside, in order.\<close>

datatype event =
    Log level string
  | GetSecretValue string string
  | DbCall nat dbcall
  | SshSetMissingHostKeyPolicyAutoAdd
  | SshConnect string string string int
  | SshExec string
  | SshClose
  | WinrmSession string "string \<times> string" string "string option"
  | RunPs string

text \<open>An open session: the database connection number \<open>n\<close>, or the shell session.\<close>

datatype session = DbConn nat | SshSession

record 'sv pstate =
  trace :: "event list"
  live :: "session list"
  dbserver :: 'sv

text \<open>
  A statement of the script is a function from the state to an outcome and the next
  state; \<open>Inl e\<close> is the exception \<open>e\<close> in flight. \<open>steps\<close> runs statements in order
  and stops at the first exception; \<open>try_except\<close> is
  \<^verbatim>\<open>try: ... except Exception as e: ...\<close>.
\<close>

type_synonym ('sv, 'a) prog = "'sv pstate \<Rightarrow> (exn + 'a) \<times> 'sv pstate"

definition ret :: "'a \<Rightarrow> ('sv, 'a) prog" where
  "ret x = (\<lambda>s. (Inr x, s))"

definition raise :: "exn \<Rightarrow> ('sv, 'a) prog" where
  "raise e = (\<lambda>s. (Inl e, s))"

definition bind :: "('sv, 'a) prog \<Rightarrow> ('a \<Rightarrow> ('sv, 'b) prog) \<Rightarrow> ('sv, 'b) prog" where
  "bind m f = (\<lambda>s. case m s of (Inl e, s') \<Rightarrow> (Inl e, s') | (Inr x, s') \<Rightarrow> f x s')"

definition try_except :: "('sv, 'a) prog \<Rightarrow> (exn \<Rightarrow> ('sv, 'a) prog) \<Rightarrow> ('sv, 'a) prog" where
  "try_except m h = (\<lambda>s. case m s of (Inl e, s') \<Rightarrow> h e s' | (Inr x, s') \<Rightarrow> (Inr x, s'))"

fun steps :: "('sv, unit) prog list \<Rightarrow> ('sv, unit) prog" where
  "steps [] = ret ()"
| "steps (m # ms) = bind m (\<lambda>_. steps ms)"

definition lift :: "exn + 'a \<Rightarrow> ('sv, 'a) prog" where
  "lift r = (\<lambda>s. (r, s))"

definition emit :: "event \<Rightarrow> ('sv, unit) prog" where
  "emit ev = (\<lambda>s. (Inr (), s\<lparr>trace := trace s @ [ev]\<rparr>))"

definition log :: "level \<Rightarrow> string \<Rightarrow> ('sv, unit) prog" where
  "log lv msg = emit (Log lv msg)"

text \<open>A library call that returns nothing: the event, then the exception if there is one.\<close>

definition call :: "event \<Rightarrow> exn option \<Rightarrow> ('sv, unit) prog" where
  "call ev r = bind (emit ev) (\<lambda>_. case r of Some e \<Rightarrow> raise e | None \<Rightarrow> ret ())"

text \<open>
  A driver call on connection \<open>c\<close>. A connection is open from the \<^verbatim>\<open>connect\<close> that
  returned it to the \<^verbatim>\<open>close\<close> that returned.
\<close>

fun live_after :: "nat \<Rightarrow> dbcall \<Rightarrow> session list \<Rightarrow> session list" where
  "live_after c (Connect sv p u pw d) l = l @ [DbConn c]"
| "live_after c Close l = removeAll (DbConn c) l"
| "live_after c other l = l"

definition db_call :: "'sv world \<Rightarrow> nat \<Rightarrow> dbcall \<Rightarrow> ('sv, row list) prog" where
  "db_call w c dc = (\<lambda>s.
     let s1 = s\<lparr>trace := trace s @ [DbCall c dc]\<rparr> in
     case w_db w (dbserver s) c dc of
       Inl e \<Rightarrow> (Inl e, s1)
     | Inr (rows, sv') \<Rightarrow> (Inr rows, s1\<lparr>live := live_after c dc (live s), dbserver := sv'\<rparr>))"

definition db :: "'sv world \<Rightarrow> nat \<Rightarrow> dbcall \<Rightarrow> ('sv, unit) prog" where
  "db w c dc = bind (db_call w c dc) (\<lambda>_. ret ())"

section \<open>SecretResolver: \<^verbatim>\<open>_get_aws_secret\<close>\<close>

text \<open>
  \<open>w_get_secret_value\<close> is the creation of the client and \<^verbatim>\<open>client.get_secret_value\<close>
  together: an exception, or the \<^verbatim>\<open>'SecretString'\<close> entry of the response (\<open>None\<close>
  when the response has no such entry). When the entry is absent the method reaches its
  end without a \<^verbatim>\<open>return\<close>, so it returns \<^verbatim>\<open>None\<close>.
\<close>

definition get_secret_value :: "'sv world \<Rightarrow> string \<Rightarrow> string \<Rightarrow> ('sv, string option) prog" where
  "get_secret_value w secret_name region_name =
     bind (emit (GetSecretValue secret_name region_name))
       (\<lambda>_. lift (w_get_secret_value w secret_name region_name))"

definition get_aws_secret :: "'sv world \<Rightarrow> string \<Rightarrow> string \<Rightarrow> ('sv, pyval) prog" where
  "get_aws_secret w secret_name region_name =
     bind (log INFO (''Retrieving credentials from AWS Secrets Manager: '' @ secret_name)) (\<lambda>_.
     try_except
       (bind (get_secret_value w secret_name region_name) (\<lambda>response.
          case response of
            Some secret_string \<Rightarrow>
              bind (lift (w_json_loads w secret_string)) (\<lambda>secret.
              bind (log INFO ''Successfully retrieved secret'') (\<lambda>_.
              ret secret))
          | None \<Rightarrow> ret PyNone))
       (\<lambda>e. bind (log ERROR (''Error retrieving AWS secret: '' @ exn_str e)) (\<lambda>_. raise e)))"

section \<open>RelationalProvisioner: \<^verbatim>\<open>_perform_mssql_operations\<close>\<close>

definition q :: string where
  "q = [CHR 0x27]"

definition nl :: string where
  "nl = [CHR 0x0A]"

definition sp12 :: string where
  "sp12 = replicate 12 (CHR '' '')"

definition sp16 :: string where
  "sp16 = replicate 16 (CHR '' '')"

text \<open>Step 1: the credentials and the two required keys.\<close>

definition mssql_credentials :: "'sv world \<Rightarrow> args \<Rightarrow> ('sv, pyval \<times> pyval) prog" where
  "mssql_credentials w a =
     bind (log INFO ''Step 1: Retrieving MS SQL credentials from AWS Secrets Manager'') (\<lambda>_.
     bind (get_aws_secret w (aws_secret_name a) (aws_region a)) (\<lambda>credentials.
     bind (lift (all_keys_in [''username'', ''password''] credentials)) (\<lambda>ok.
     if \<not> ok then raise (ValueError ''AWS Secret is missing required keys: username, password'')
     else
       bind (lift (py_getitem credentials ''username'')) (\<lambda>username.
       bind (lift (py_getitem credentials ''password'')) (\<lambda>password.
       ret (username, password))))))"

text \<open>The server and the port out of \<^verbatim>\<open>--mssql-url\<close>; the port defaults to 1433.\<close>

definition parse_mssql_url :: "'sv world \<Rightarrow> string \<Rightarrow> ('sv, string \<times> int) prog" where
  "parse_mssql_url w url =
     (case split_on (CHR '':'') (replace ''sqlserver://'' [] url) of
        [] \<Rightarrow> raise (IndexError ''list index out of range'')
      | [server] \<Rightarrow> ret (server, 1433)
      | server # p # rest \<Rightarrow> bind (lift (w_int w p)) (\<lambda>port. ret (server, port)))"

definition db_name_at :: "real \<Rightarrow> string" where
  "db_name_at t = ''ExampleDB_'' @ str_int (int_of_float t)"

definition create_database_sql :: "string \<Rightarrow> string" where
  "create_database_sql db_name =
     ''IF NOT EXISTS (SELECT name FROM master.dbo.sysdatabases WHERE name = N'' @ q @ db_name
       @ q @ '') CREATE DATABASE '' @ db_name"

definition schema_name :: string where
  "schema_name = ''ExampleSchema''"

definition create_schema_sql :: string where
  "create_schema_sql =
     ''IF NOT EXISTS (SELECT schema_name FROM information_schema.schemata WHERE schema_name = ''
       @ q @ schema_name @ q @ '') EXEC sp_executesql N'' @ q @ ''CREATE SCHEMA '' @ schema_name @ q"

definition table_name :: string where
  "table_name = schema_name @ ''.ExampleTable''"

definition create_table_sql :: string where
  "create_table_sql =
     nl @ sp12 @ ''IF OBJECT_ID('' @ q @ table_name @ q @ '', '' @ q @ ''U'' @ q @ '') IS NULL''
     @ nl @ sp12 @ ''CREATE TABLE '' @ table_name @ '' (''
     @ nl @ sp16 @ ''ID INT PRIMARY KEY IDENTITY(1,1),''
     @ nl @ sp16 @ ''Name NVARCHAR(100) NOT NULL,''
     @ nl @ sp16 @ ''Description NVARCHAR(MAX),''
     @ nl @ sp16 @ ''CreatedDate DATETIME DEFAULT GETDATE()''
     @ nl @ sp12 @ '')''
     @ nl @ sp12"

definition sample_data :: "(string \<times> string) list" where
  "sample_data =
     [(''Sample Item 1'', ''This is a description for sample item 1''),
      (''Sample Item 2'', ''This is a description for sample item 2''),
      (''Sample Item 3'', ''This is a description for sample item 3'')]"

definition insert_sql :: string where
  "insert_sql = ''INSERT INTO '' @ table_name @ '' (Name, Description) VALUES (%s, %s)''"

definition select_sql :: string where
  "select_sql = ''SELECT * FROM '' @ table_name"

text \<open>The loop of step 6: one \<^verbatim>\<open>cursor.execute(text, (name, description))\<close> per pair.\<close>

fun insert_rows :: "'sv world \<Rightarrow> nat \<Rightarrow> (string \<times> string) list \<Rightarrow> ('sv, unit) prog" where
  "insert_rows w c [] = ret ()"
| "insert_rows w c ((name, description) # rest) =
     bind (db w c (Execute insert_sql (Some [name, description]))) (\<lambda>_. insert_rows w c rest)"

text \<open>
  The loop of step 7. The f-string reads \<^verbatim>\<open>row[0]\<close> to \<^verbatim>\<open>row[3]\<close>; on a row of fewer
  than four cells the first missing index raises IndexError before anything is logged.
\<close>

definition log_row :: "row \<Rightarrow> ('sv, unit) prog" where
  "log_row r =
     (if length r < 4 then raise (IndexError ''tuple index out of range'')
      else log INFO (''  ID: '' @ dbval_str (r ! 0) @ '', Name: '' @ dbval_str (r ! 1)
             @ '', Description: '' @ dbval_str (r ! 2) @ '', Created: '' @ dbval_str (r ! 3)))"

fun log_rows :: "row list \<Rightarrow> ('sv, unit) prog" where
  "log_rows [] = ret ()"
| "log_rows (r # rs) = bind (log_row r) (\<lambda>_. log_rows rs)"

text \<open>Steps 2 and 3: connect without a database, create the database, close.\<close>

definition mssql_create_database ::
  "'sv world \<Rightarrow> string \<Rightarrow> int \<Rightarrow> pyval \<Rightarrow> pyval \<Rightarrow> ('sv, string) prog" where
  "mssql_create_database w server port username password =
     bind (steps
       [log INFO (''Step 2: Connecting to MS SQL Server at '' @ server @ '':'' @ str_int port),
        db w 1 (Connect server port username password None),
        db w 1 Cursor,
        log INFO ''Successfully connected to MS SQL Server'']) (\<lambda>_.
     let db_name = db_name_at (w_time w) in
     bind (steps
       [log INFO (''Step 3: Creating new database: '' @ db_name),
        db w 1 (Autocommit True),
        db w 1 (Execute (create_database_sql db_name) None),
        log INFO (''Database '' @ q @ db_name @ q @ '' created successfully''),
        db w 1 Close]) (\<lambda>_.
     ret db_name))"

text \<open>Steps 4 to 7 on a second connection, which selects the new database.\<close>

definition mssql_provision ::
  "'sv world \<Rightarrow> string \<Rightarrow> int \<Rightarrow> pyval \<Rightarrow> pyval \<Rightarrow> string \<Rightarrow> ('sv, row list) prog" where
  "mssql_provision w server port username password db_name =
     bind (steps
       [db w 2 (Connect server port username password (Some db_name)),
        db w 2 Cursor,
        log INFO (''Step 4: Creating schema: '' @ schema_name),
        db w 2 (Execute create_schema_sql None),
        db w 2 Commit,
        log INFO (''Schema '' @ q @ schema_name @ q @ '' created successfully''),
        log INFO (''Step 5: Creating table: '' @ table_name),
        db w 2 (Execute create_table_sql None),
        db w 2 Commit,
        log INFO (''Table '' @ q @ table_name @ q @ '' created successfully''),
        log INFO ''Step 6: Inserting sample data'',
        insert_rows w 2 sample_data,
        db w 2 Commit,
        log INFO (''Successfully inserted '' @ str_int (int (length sample_data)) @ '' sample records''),
        log INFO ''Step 7: Retrieving inserted data'',
        db w 2 (Execute select_sql None)]) (\<lambda>_.
     bind (db_call w 2 Fetchall) (\<lambda>rows.
     bind (steps
       [log INFO (''Retrieved '' @ str_int (int (length rows)) @ '' rows from '' @ table_name @ '':''),
        log_rows rows,
        db w 2 Close,
        log INFO ''MS SQL operations completed successfully'']) (\<lambda>_.
     ret rows)))"

text \<open>The body of the \<^verbatim>\<open>try\<close>; it hands the rows read back to the theorems below.\<close>

definition mssql_body :: "'sv world \<Rightarrow> args \<Rightarrow> ('sv, row list) prog" where
  "mssql_body w a =
     bind (mssql_credentials w a) (\<lambda>(username, password).
     bind (parse_mssql_url w (mssql_url a)) (\<lambda>(server, port).
     bind (mssql_create_database w server port username password) (\<lambda>db_name.
     mssql_provision w server port username password db_name)))"

definition mssql_rows :: "'sv world \<Rightarrow> args \<Rightarrow> ('sv, row list) prog" where
  "mssql_rows w a =
     bind (log INFO ''=== STARTING MS SQL OPERATIONS ==='') (\<lambda>_.
     try_except (mssql_body w a)
       (\<lambda>e. bind (log ERROR (''Error during MS SQL operations: '' @ exn_str e)) (\<lambda>_. raise e)))"

definition perform_mssql_operations :: "'sv world \<Rightarrow> args \<Rightarrow> ('sv, unit) prog" where
  "perform_mssql_operations w a = bind (mssql_rows w a) (\<lambda>_. ret ())"

section \<open>RemoteShellInspector: \<^verbatim>\<open>_perform_ssh_operations\<close>\<close>

definition ssh_connect :: "'sv world \<Rightarrow> string \<Rightarrow> string \<Rightarrow> string \<Rightarrow> int \<Rightarrow> ('sv, unit) prog" where
  "ssh_connect w hostname username key_filename timeout = (\<lambda>s.
     let s1 = s\<lparr>trace := trace s @ [SshConnect hostname username key_filename timeout]\<rparr> in
     case w_ssh_connect w hostname username key_filename timeout of
       Some e \<Rightarrow> (Inl e, s1)
     | None \<Rightarrow> (Inr (), s1\<lparr>live := live s @ [SshSession]\<rparr>))"

definition ssh_close :: "'sv world \<Rightarrow> ('sv, unit) prog" where
  "ssh_close w = (\<lambda>s.
     let s1 = s\<lparr>trace := trace s @ [SshClose]\<rparr> in
     case w_ssh_close w of
       Some e \<Rightarrow> (Inl e, s1)
     | None \<Rightarrow> (Inr (), s1\<lparr>live := removeAll SshSession (live s)\<rparr>))"

definition exec_command :: "'sv world \<Rightarrow> string \<Rightarrow> ('sv, ssh_output) prog" where
  "exec_command w cmd = bind (emit (SshExec cmd)) (\<lambda>_. lift (w_ssh_exec w cmd))"

text \<open>Step 3: \<^verbatim>\<open>hostname -I\<close>.\<close>

definition ssh_ip_addresses :: "'sv world \<Rightarrow> ('sv, unit) prog" where
  "ssh_ip_addresses w =
     bind (log INFO ''Step 3: Retrieving IP address information'') (\<lambda>_.
     bind (exec_command w ''hostname -I'') (\<lambda>out.
     bind (lift (so_stdout out)) (\<lambda>raw.
     let ip_addresses = strip raw in
     if ip_addresses \<noteq> [] then log INFO (''Remote system IP addresses: '' @ ip_addresses)
     else
       bind (lift (so_stderr out)) (\<lambda>raw_err.
       log WARNING (''Could not retrieve IP addresses. Error: '' @ strip raw_err)))))"

text \<open>Step 4: \<^verbatim>\<open>hostname -f\<close>.\<close>

definition ssh_domain_name :: "'sv world \<Rightarrow> ('sv, unit) prog" where
  "ssh_domain_name w =
     bind (log INFO ''Step 4: Retrieving domain name information'') (\<lambda>_.
     bind (exec_command w ''hostname -f'') (\<lambda>out.
     bind (lift (so_stdout out)) (\<lambda>raw.
     let domain_name = strip raw in
     if domain_name \<noteq> [] then log INFO (''Remote system domain name: '' @ domain_name)
     else
       bind (lift (so_stderr out)) (\<lambda>raw_err.
       log WARNING (''Could not retrieve domain name. Error: '' @ strip raw_err)))))"

text \<open>Step 5: the loop over the three remaining commands. An empty output logs nothing.\<close>

definition ssh_commands :: "string list" where
  "ssh_commands = [''uname -a'', ''cat /etc/os-release | grep PRETTY_NAME'', ''uptime'']"

fun ssh_system_information :: "'sv world \<Rightarrow> string list \<Rightarrow> ('sv, unit) prog" where
  "ssh_system_information w [] = ret ()"
| "ssh_system_information w (cmd # cmds) =
     bind (exec_command w cmd) (\<lambda>out.
     bind (lift (so_stdout out)) (\<lambda>raw.
     let output = strip raw in
     bind (if output \<noteq> [] then log INFO (''Command '' @ q @ cmd @ q @ '' output: '' @ output)
           else ret ()) (\<lambda>_.
     ssh_system_information w cmds)))"

definition ssh_body :: "'sv world \<Rightarrow> args \<Rightarrow> ('sv, unit) prog" where
  "ssh_body w a =
     steps
       [log INFO (''Step 1: Validating SSH key file at '' @ ssh_key_path a),
        (if \<not> w_isfile w (ssh_key_path a)
         then raise (FileNotFoundError (''SSH key file not found: '' @ ssh_key_path a))
         else ret ()),
        log INFO (''Step 2: Connecting to SSH server at '' @ ssh_host a),
        emit SshSetMissingHostKeyPolicyAutoAdd,
        ssh_connect w (ssh_host a) (ssh_user a) (ssh_key_path a) 10,
        log INFO (''Successfully established SSH connection to '' @ ssh_host a),
        ssh_ip_addresses w,
        ssh_domain_name w,
        log INFO ''Step 5: Retrieving system information'',
        ssh_system_information w ssh_commands,
        ssh_close w,
        log INFO ''SSH operations completed successfully'']"

definition perform_ssh_operations :: "'sv world \<Rightarrow> args \<Rightarrow> ('sv, unit) prog" where
  "perform_ssh_operations w a =
     bind (log INFO ''=== STARTING SSH OPERATIONS ==='') (\<lambda>_.
     try_except (ssh_body w a)
       (\<lambda>e. bind (log ERROR (''Error during SSH operations: '' @ exn_str e)) (\<lambda>_. raise e)))"

section \<open>RemoteCommandBridge: \<^verbatim>\<open>_perform_winrm_operations\<close>\<close>

definition RECURSION_FLAG :: string where
  "RECURSION_FLAG = ''--no-winrm-recursion''"

definition winrm_protocol :: "args \<Rightarrow> string" where
  "winrm_protocol a = (if winrm_use_ssl a then ''ntlm'' else ''http'')"

definition winrm_endpoint :: "args \<Rightarrow> string" where
  "winrm_endpoint a =
     winrm_protocol a @ ''://'' @ winrm_host a @ '':'' @ str_int (winrm_port a) @ ''/wsman''"

text \<open>The arguments of \<^verbatim>\<open>winrm.Session(...)\<close>: target, \<^verbatim>\<open>auth\<close>, \<^verbatim>\<open>transport\<close> and
  \<^verbatim>\<open>server_cert_validation\<close>.\<close>

definition winrm_session_event :: "args \<Rightarrow> event" where
  "winrm_session_event a =
     WinrmSession (winrm_host a) (winrm_user a, winrm_password a) (winrm_protocol a)
       (if winrm_use_ssl a then Some ''ignore'' else None)"

definition winrm_session :: "'sv world \<Rightarrow> args \<Rightarrow> ('sv, unit) prog" where
  "winrm_session w a =
     call (winrm_session_event a)
       (w_winrm_session w (winrm_host a) (winrm_user a, winrm_password a) (winrm_protocol a)
          (if winrm_use_ssl a then Some ''ignore'' else None))"

definition run_ps :: "'sv world \<Rightarrow> string \<Rightarrow> ('sv, ps_result) prog" where
  "run_ps w script = bind (emit (RunPs script)) (\<lambda>_. lift (w_run_ps w script))"

definition ip_command :: string where
  \<open>ip_command = ''ipconfig | findstr /i "IPv4 Address"''\<close>

definition domain_command :: string where
  "domain_command = ''echo %USERDOMAIN%''"

text \<open>Step 3: the two introspection commands; a non-zero status is a warning.\<close>

definition winrm_probe :: "'sv world \<Rightarrow> ('sv, unit) prog" where
  "winrm_probe w =
     bind (log INFO ''Step 3: Retrieving IP and domain information'') (\<lambda>_.
     bind (run_ps w ip_command) (\<lambda>result.
     bind (if status_code result = 0
           then log INFO (''Remote system IP information:'' @ nl @ strip (std_out result))
           else log WARNING ''Could not retrieve IP information'') (\<lambda>_.
     bind (run_ps w domain_command) (\<lambda>result.
     if status_code result = 0
     then log INFO (''Remote system domain: '' @ strip (std_out result))
     else log WARNING ''Could not retrieve domain information''))))"

text \<open>\<^verbatim>\<open>script_args\<close>: the original arguments joined by spaces, then a space and the flag.\<close>

definition script_args :: "string list \<Rightarrow> string" where
  "script_args argv = join '' '' (drop 1 argv) @ '' '' @ RECURSION_FLAG"

definition ps_script :: "string list \<Rightarrow> string" where
  \<open>ps_script argv =
     nl @ sp12 @ ''Write-Host "=== RUNNING PYTHON SCRIPT ON REMOTE SYSTEM (SIMULATION) ==="''
     @ nl @ sp12 @ ''Write-Host "Script would be executed with these arguments: '' @ script_args argv @ ''"''
     @ nl @ sp12 @ ''Write-Host "Current system: $env:COMPUTERNAME"''
     @ nl @ sp12 @ ''Write-Host "Current user: $env:USERNAME"''
     @ nl @ sp12 @ ''Write-Host "Recursion prevention active: True (via '' @ RECURSION_FLAG @ '')"''
     @ nl @ sp12 @ ''Write-Host "Script execution completed on remote system"''
     @ nl @ sp12\<close>

text \<open>Steps 4 and 5: the self-invocation; a non-zero status raises RuntimeError.\<close>

definition winrm_dispatch :: "'sv world \<Rightarrow> ('sv, unit) prog" where
  "winrm_dispatch w =
     bind (log INFO ''Step 4: Preparing for script execution on remote system'') (\<lambda>_.
     case sys_argv w of
       [] \<Rightarrow> raise (IndexError ''list index out of range'')
     | argv0 # rest \<Rightarrow>
         bind (log INFO (''Current script path: '' @ w_abspath w argv0)) (\<lambda>_.
         bind (log INFO ''Step 5: Executing script simulation on remote system'') (\<lambda>_.
         bind (run_ps w (ps_script (sys_argv w))) (\<lambda>result.
         if status_code result = 0
         then log INFO (''Remote execution output:'' @ nl @ strip (std_out result))
         else
           bind (log ERROR (''Failed to execute script on remote system. Error: ''
                   @ strip (std_err result))) (\<lambda>_.
           raise (RuntimeError ''Remote script execution failed''))))))"

definition winrm_body :: "'sv world \<Rightarrow> args \<Rightarrow> ('sv, unit) prog" where
  "winrm_body w a =
     steps
       [log INFO (''Step 1: Establishing WinRM connection to '' @ winrm_host a),
        log INFO (''Connecting to WinRM endpoint: '' @ winrm_endpoint a),
        winrm_session w a,
        winrm_probe w,
        winrm_dispatch w,
        log INFO ''WinRM operations completed successfully'']"

definition perform_winrm_operations :: "'sv world \<Rightarrow> args \<Rightarrow> ('sv, unit) prog" where
  "perform_winrm_operations w a =
     bind (log INFO ''=== STARTING WINRM OPERATIONS (REMOTE DESKTOP CONNECTION) ==='') (\<lambda>_.
     try_except (winrm_body w a)
       (\<lambda>e. bind (log ERROR (''Error during WinRM operations: '' @ exn_str e)) (\<lambda>_. raise e)))"

section \<open>Orchestrator: \<^verbatim>\<open>__init__\<close> and \<^verbatim>\<open>run\<close>\<close>

text \<open>
  The object: the parsed arguments and the recursion guard. The guard is
  \<^verbatim>\<open>RECURSION_FLAG in sys.argv\<close>, a test on the elements of the argument list.
  \<^verbatim>\<open>parse_args\<close> itself is not modelled: its result is the \<open>args\<close> given.
\<close>

record script =
  self_args :: args
  prevent_winrm_recursion :: bool

definition init :: "'sv world \<Rightarrow> args \<Rightarrow> ('sv, script) prog" where
  "init w a =
     bind (steps
       [log INFO ''Initializing Multi-Operations Script'',
        log INFO (''Running on: '' @ w_platform w),
        log INFO (''Python version: '' @ w_python_version w)]) (\<lambda>_.
     ret \<lparr>self_args = a, prevent_winrm_recursion = List.member (sys_argv w) RECURSION_FLAG\<rparr>)"

definition run_body :: "'sv world \<Rightarrow> script \<Rightarrow> ('sv, unit) prog" where
  "run_body w self =
     steps
       [log INFO ''Starting operations sequence'',
        perform_mssql_operations w (self_args self),
        perform_ssh_operations w (self_args self),
        (if \<not> prevent_winrm_recursion self then perform_winrm_operations w (self_args self)
         else log INFO ''Skipping WinRM operations (recursion prevention active)''),
        log INFO ''All operations completed successfully'']"

text \<open>\<open>run\<close> returns the exit status of the process: 1 after \<^verbatim>\<open>sys.exit(1)\<close>, 0 when
  the script reaches its end.\<close>

definition run :: "'sv world \<Rightarrow> script \<Rightarrow> 'sv pstate \<Rightarrow> int \<times> 'sv pstate" where
  "run w self s =
     (case run_body w self s of
        (Inl e, s') \<Rightarrow> (1, snd (log ERROR (''Error during operations: '' @ exn_str e) s'))
      | (Inr u, s') \<Rightarrow> (0, s'))"

section \<open>Reading a trace\<close>

definition start :: "'sv \<Rightarrow> 'sv pstate" where
  "start sv = \<lparr>trace = [], live = [], dbserver = sv\<rparr>"

text \<open>The scripts handed to \<^verbatim>\<open>run_ps\<close>, the commands handed to \<^verbatim>\<open>exec_command\<close>, the
  warnings logged and the statements handed to \<^verbatim>\<open>cursor.execute\<close>, each in order.\<close>

fun ps_calls :: "event list \<Rightarrow> string list" where
  "ps_calls [] = []"
| "ps_calls (RunPs script # es) = script # ps_calls es"
| "ps_calls (e # es) = ps_calls es"

fun ssh_execs :: "event list \<Rightarrow> string list" where
  "ssh_execs [] = []"
| "ssh_execs (SshExec cmd # es) = cmd # ssh_execs es"
| "ssh_execs (e # es) = ssh_execs es"

fun warnings :: "event list \<Rightarrow> string list" where
  "warnings [] = []"
| "warnings (Log WARNING msg # es) = msg # warnings es"
| "warnings (e # es) = warnings es"

fun executes :: "event list \<Rightarrow> (string \<times> string list option) list" where
  "executes [] = []"
| "executes (DbCall c (Execute sql params) # es) = (sql, params) # executes es"
| "executes (e # es) = executes es"

text \<open>The events of the command bridge: the session and every \<^verbatim>\<open>run_ps\<close>.\<close>

fun is_winrm :: "event \<Rightarrow> bool" where
  "is_winrm (WinrmSession h au t v) = True"
| "is_winrm (RunPs script) = True"
| "is_winrm e = False"

definition winrm_calls :: "event list \<Rightarrow> event list" where
  "winrm_calls tr = filter is_winrm tr"

text \<open>
  Three ways to state what a statement does: \<open>keeps f m\<close>, the observation \<open>f\<close> of
  the state is the same after \<open>m\<close> as before, whatever the outcome; \<open>changes f g m\<close>,
  when \<open>m\<close> returns, the observation \<open>f\<close> has changed by \<open>g\<close>; and \<open>wp m Q E s\<close>,
  from \<open>s\<close> the statement \<open>m\<close> ends in a state and value that satisfy \<open>Q\<close>, or raises
  an exception that satisfies \<open>E\<close>.
\<close>

definition keeps :: "('sv pstate \<Rightarrow> 'x) \<Rightarrow> ('sv, 'a) prog \<Rightarrow> bool" where
  "keeps f m = (\<forall>s. f (snd (m s)) = f s)"

definition changes :: "('sv pstate \<Rightarrow> 'x) \<Rightarrow> ('x \<Rightarrow> 'x) \<Rightarrow> ('sv, 'a) prog \<Rightarrow> bool" where
  "changes f g m = (\<forall>s. case m s of (Inl e, s') \<Rightarrow> True | (Inr x, s') \<Rightarrow> f s' = g (f s))"

definition wp ::
  "('sv, 'a) prog \<Rightarrow> ('a \<Rightarrow> 'sv pstate \<Rightarrow> bool) \<Rightarrow> (exn \<Rightarrow> 'sv pstate \<Rightarrow> bool) \<Rightarrow> 'sv pstate \<Rightarrow> bool"
  where
  "wp m Q E s = (case m s of (Inl e, s') \<Rightarrow> E e s' | (Inr x, s') \<Rightarrow> Q x s')"

section \<open>A SQL server for the statements of the script\<close>

text \<open>
  The server is outside the script. This model of it answers exactly the statements that
  \<^verbatim>\<open>_perform_mssql_operations\<close> sends, with the meaning their text has: a guarded
  \<^verbatim>\<open>CREATE DATABASE\<close>, a guarded \<^verbatim>\<open>CREATE SCHEMA\<close>, a guarded \<^verbatim>\<open>CREATE TABLE\<close> whose
  \<^verbatim>\<open>ID\<close> column is \<^verbatim>\<open>IDENTITY(1,1)\<close> and whose \<^verbatim>\<open>CreatedDate\<close> defaults to the
  server's clock, an \<^verbatim>\<open>INSERT\<close> of a name and a description, and \<^verbatim>\<open>SELECT *\<close>, which
  returns the rows of the table in the order of their identity values. One client is
  connected at a time.
\<close>

record sqltable =
  next_identity :: int
  table_rows :: "row list"

record sqldatabase =
  db_schemas :: "string list"
  db_tables :: "(string \<times> sqltable) list"

record sqlserver =
  databases :: "(string \<times> sqldatabase) list"
  current_db :: "string option"
  result_set :: "row list"
  getdate :: string

definition create_database_prefix :: string where
  "create_database_prefix =
     ''IF NOT EXISTS (SELECT name FROM master.dbo.sysdatabases WHERE name = N'' @ q"

text \<open>The name inside a guarded \<^verbatim>\<open>CREATE DATABASE\<close> statement, if the text is one.\<close>

definition created_database :: "string \<Rightarrow> string option" where
  "created_database sql =
     (if prefix create_database_prefix sql
      then let name = takeWhile (\<lambda>c. c \<noteq> CHR 0x27) (drop (length create_database_prefix) sql)
           in if sql = create_database_sql name then Some name else None
      else None)"

definition sql_error :: "string \<Rightarrow> exn + (row list \<times> sqlserver)" where
  "sql_error msg = Inl (LibraryError msg)"

definition sql_ok :: "sqlserver \<Rightarrow> exn + (row list \<times> sqlserver)" where
  "sql_ok sv = Inr ([], sv)"

definition update_db :: "string \<Rightarrow> sqldatabase \<Rightarrow> sqlserver \<Rightarrow> sqlserver" where
  "update_db name d sv = sv\<lparr>databases := AList.update name d (databases sv)\<rparr>"

definition sql_execute :: "sqlserver \<Rightarrow> string \<Rightarrow> string list option \<Rightarrow> exn + (row list \<times> sqlserver)" where
  "sql_execute sv sql params =
     (case created_database sql of
        Some name \<Rightarrow>
          (if map_of (databases sv) name \<noteq> None then sql_ok sv
           else sql_ok (sv\<lparr>databases := databases sv @ [(name, \<lparr>db_schemas = [], db_tables = []\<rparr>)]\<rparr>))
      | None \<Rightarrow>
          (case current_db sv of
             None \<Rightarrow> sql_error ''no database selected''
           | Some name \<Rightarrow>
               (case map_of (databases sv) name of
                  None \<Rightarrow> sql_error ''database does not exist''
                | Some d \<Rightarrow>
                    if sql = create_schema_sql then
                      (if List.member (db_schemas d) schema_name then sql_ok sv
                       else sql_ok (update_db name (d\<lparr>db_schemas := db_schemas d @ [schema_name]\<rparr>) sv))
                    else if sql = create_table_sql then
                      (if \<not> List.member (db_schemas d) schema_name then sql_error ''schema does not exist''
                       else if map_of (db_tables d) table_name \<noteq> None then sql_ok sv
                       else sql_ok (update_db name
                              (d\<lparr>db_tables := db_tables d
                                   @ [(table_name, \<lparr>next_identity = 1, table_rows = []\<rparr>)]\<rparr>) sv))
                    else if sql = insert_sql then
                      (case (map_of (db_tables d) table_name, params) of
                         (Some t, Some [name_value, description_value]) \<Rightarrow>
                           sql_ok (update_db name
                             (d\<lparr>db_tables := AList.update table_name
                                  \<lparr>next_identity = next_identity t + 1,
                                   table_rows = table_rows t
                                     @ [[DbInt (next_identity t), DbStr name_value,
                                         DbStr description_value, DbDatetime (getdate sv)]]\<rparr>
                                  (db_tables d)\<rparr>) sv)
                       | other \<Rightarrow> sql_error ''invalid insert'')
                    else if sql = select_sql then
                      (case map_of (db_tables d) table_name of
                         Some t \<Rightarrow> sql_ok (sv\<lparr>result_set := table_rows t\<rparr>)
                       | None \<Rightarrow> sql_error ''invalid object name'')
                    else sql_error ''statement not understood'')))"

fun sql_server :: "sqlserver \<Rightarrow> nat \<Rightarrow> dbcall \<Rightarrow> exn + (row list \<times> sqlserver)" where
  "sql_server sv c (Connect host port user password None) = sql_ok (sv\<lparr>current_db := None\<rparr>)"
| "sql_server sv c (Connect host port user password (Some name)) =
     (if map_of (databases sv) name \<noteq> None then sql_ok (sv\<lparr>current_db := Some name\<rparr>)
      else sql_error ''cannot open database'')"
| "sql_server sv c Cursor = sql_ok sv"
| "sql_server sv c (Autocommit b) = sql_ok sv"
| "sql_server sv c (Execute sql params) = sql_execute sv sql params"
| "sql_server sv c Commit = sql_ok sv"
| "sql_server sv c Fetchall = Inr (result_set sv, sv\<lparr>result_set := []\<rparr>)"
| "sql_server sv c Close = sql_ok (sv\<lparr>current_db := None\<rparr>)"

definition empty_server :: sqlserver where
  "empty_server = \<lparr>databases = [], current_db = None, result_set = [], getdate = ''2023-11-14 22:13:20''\<rparr>"

section \<open>A concrete world\<close>

text \<open>
  One world in which every stage succeeds: a secret with both keys, the SQL server
  above, a shell host that answers every command, and a WinRM host that answers every
  script with status 0. The theorems below use it, and variants of it, as concrete inputs.
\<close>

definition demo_args :: args where
  "demo_args =
     \<lparr>mssql_url = ''sqlserver://db.example:1433'', aws_secret_name = ''mssql'',
      aws_region = ''us-east-1'', ssh_host = ''10.0.0.5'', ssh_user = ''ops'',
      ssh_key_path = ''/home/ops/id_rsa'', winrm_host = ''10.0.0.9'', winrm_user = ''admin'',
      winrm_password = ''pw'', winrm_port = 5985, winrm_use_ssl = False\<rparr>"

definition demo_argv :: "string list" where
  "demo_argv = [''run.py'', ''--winrm-host'', ''10.0.0.9'']"

definition demo_secret :: pyval where
  "demo_secret = PyDict [(''username'', PyStr ''sa''), (''password'', PyStr ''s3cret'')]"

definition demo_ssh_exec :: "string \<Rightarrow> exn + ssh_output" where
  "demo_ssh_exec cmd = Inr \<lparr>so_stdout = Inr (''out of '' @ cmd @ nl), so_stderr = Inr []\<rparr>"

definition demo_world :: "sqlserver world" where
  "demo_world =
     \<lparr>sys_argv = demo_argv,
      w_platform = ''Linux'',
      w_python_version = ''3.11.4'',
      w_get_secret_value = (\<lambda>name region. Inr (Some ''{}'')),
      w_json_loads = (\<lambda>text. Inr demo_secret),
      w_int = (\<lambda>text. if text = ''1433'' then Inr 1433 else Inl (ValueError ''invalid literal for int()'')),
      w_time = 1700000000.25,
      w_db = sql_server,
      w_isfile = (\<lambda>path. True),
      w_ssh_connect = (\<lambda>host user key timeout. None),
      w_ssh_exec = demo_ssh_exec,
      w_ssh_close = None,
      w_winrm_session = (\<lambda>host auth transport validation. None),
      w_run_ps = (\<lambda>script. Inr \<lparr>status_code = 0, std_out = ''ok'', std_err = []\<rparr>),
      w_abspath = (\<lambda>path. ''/opt/'' @ path)\<rparr>"

section \<open>Concrete inputs and expected results\<close>



section \<open>Rules for statements\<close>

lemma wp_ret [simp]: "wp (ret x) Q E s = Q x s"
  by (simp add: wp_def ret_def)

lemma wp_raise [simp]: "wp (raise e) Q E s = E e s"
  by (simp add: wp_def raise_def)

lemma wp_bind [simp]: "wp (bind m k) Q E s = wp m (\<lambda>x s'. wp (k x) Q E s') E s"
  by (simp add: wp_def bind_def split: prod.split sum.split)

lemma wp_try_except [simp]: "wp (try_except m h) Q E s = wp m Q (\<lambda>e s'. wp (h e) Q E s') s"
  by (simp add: wp_def try_except_def split: prod.split sum.split)

lemma wp_steps_Nil [simp]: "wp (steps []) Q E s = Q () s"
  by simp

lemma wp_steps_Cons [simp]: "wp (steps (m # ms)) Q E s = wp m (\<lambda>_ s'. wp (steps ms) Q E s') E s"
  by simp

declare steps.simps [simp del]

lemma wp_lift [simp]: "wp (lift r) Q E s = (case r of Inl e \<Rightarrow> E e s | Inr x \<Rightarrow> Q x s)"
  by (simp add: wp_def lift_def split: sum.split)

lemma wp_emit [simp]: "wp (emit ev) Q E s = Q () (trace_update (\<lambda>t. t @ [ev]) s)"
  by (cases s) (simp add: wp_def emit_def)

lemma wp_log [simp]: "wp (log lv msg) Q E s = Q () (trace_update (\<lambda>t. t @ [Log lv msg]) s)"
  by (simp add: log_def)

lemma wp_call [simp]:
  "wp (call ev r) Q E s =
     (case r of Some e \<Rightarrow> E e (trace_update (\<lambda>t. t @ [ev]) s)
      | None \<Rightarrow> Q () (trace_update (\<lambda>t. t @ [ev]) s))"
  by (simp add: call_def split: option.split)

lemma wp_db_call [simp]:
  "wp (db_call w c dc) Q E s =
     (case w_db w (dbserver s) c dc of
        Inl e \<Rightarrow> E e (trace_update (\<lambda>t. t @ [DbCall c dc]) s)
      | Inr (rows, sv') \<Rightarrow>
          Q rows (dbserver_update (\<lambda>_. sv') (live_update (live_after c dc)
                    (trace_update (\<lambda>t. t @ [DbCall c dc]) s))))"
  by (cases s) (simp add: wp_def db_call_def Let_def split: prod.split sum.split)

lemma wp_db [simp]:
  "wp (db w c dc) Q E s =
     (case w_db w (dbserver s) c dc of
        Inl e \<Rightarrow> E e (trace_update (\<lambda>t. t @ [DbCall c dc]) s)
      | Inr (rows, sv') \<Rightarrow>
          Q () (dbserver_update (\<lambda>_. sv') (live_update (live_after c dc)
                  (trace_update (\<lambda>t. t @ [DbCall c dc]) s))))"
  by (simp add: db_def split: sum.split prod.split)

lemma wp_ssh_connect [simp]:
  "wp (ssh_connect w h u k t) Q E s =
     (case w_ssh_connect w h u k t of
        Some e \<Rightarrow> E e (trace_update (\<lambda>t'. t' @ [SshConnect h u k t]) s)
      | None \<Rightarrow> Q () (live_update (\<lambda>l. l @ [SshSession])
                  (trace_update (\<lambda>t'. t' @ [SshConnect h u k t]) s)))"
  by (cases s) (simp add: wp_def ssh_connect_def Let_def split: option.split)

lemma wp_ssh_close [simp]:
  "wp (ssh_close w) Q E s =
     (case w_ssh_close w of
        Some e \<Rightarrow> E e (trace_update (\<lambda>t. t @ [SshClose]) s)
      | None \<Rightarrow> Q () (live_update (removeAll SshSession) (trace_update (\<lambda>t. t @ [SshClose]) s)))"
  by (cases s) (simp add: wp_def ssh_close_def Let_def split: option.split)


lemma wp_error: "wp m Q E s \<Longrightarrow> m s = (Inl e, s') \<Longrightarrow> E e s'"
  by (simp add: wp_def)



section \<open>The name of the provisioned database\<close>

lemma str_int_1700000000: "str_int 1700000000 = ''1700000000''"
  by (simp add: str_int_def digits_nat.simps digit_char_def)

text \<open>
  C7. The suffix of the database name is \<^verbatim>\<open>int(time.time())\<close>, whole seconds. The
  source comments the line with \<^verbatim>\<open># Unique name\<close>, yet two invocations whose clock
  readings fall into the same second, here 1700000000.25 and 1700000000.75, generate
  the same name.
\<close>

theorem db_name_same_second:
  "db_name_at 1700000000.25 = ''ExampleDB_1700000000''
   \<and> db_name_at 1700000000.75 = ''ExampleDB_1700000000''
   \<and> (1700000000.25 :: real) \<noteq> 1700000000.75"
  by (simp add: db_name_at_def int_of_float_def str_int_1700000000)

section \<open>The endpoint of the command bridge\<close>

text \<open>
  C9. The endpoint built from protocol, host and port is only written to the log
  (\<^verbatim>\<open>Connecting to WinRM endpoint: ...\<close>). The session is created from the host, the
  credentials, the transport and the certificate setting: the configured port does not
  reach it, so two configurations that differ in the port alone open the same session
  while the logged endpoints differ.
\<close>

theorem winrm_port_not_used:
  "winrm_session_event (a\<lparr>winrm_port := p\<rparr>) = winrm_session_event a
   \<and> winrm_session w (a\<lparr>winrm_port := p\<rparr>) = winrm_session w a
   \<and> winrm_endpoint (demo_args\<lparr>winrm_port := 5986\<rparr>) = ''http://10.0.0.9:5986/wsman''
   \<and> winrm_endpoint demo_args = ''http://10.0.0.9:5985/wsman''"
  by (simp add: winrm_session_event_def winrm_session_def winrm_protocol_def winrm_endpoint_def
      demo_args_def str_int_def digits_nat.simps digit_char_def)

section \<open>Resolving the secret\<close>



lemma wp_fst_Inl: "wp m (\<lambda>x s'. False) (\<lambda>e s'. e = v) s \<Longrightarrow> fst (m s) = Inl v"
  by (auto simp: wp_def split: prod.splits sum.splits)


lemma wp_run_succeeds: "wp (run_body w self) (\<lambda>x s'. True) (\<lambda>e s'. False) s \<Longrightarrow> fst (run w self s) = 0"
  by (auto simp: wp_def run_def split: prod.splits sum.splits)

lemmas secret_defs = mssql_credentials_def get_aws_secret_def get_secret_value_def






text \<open>
  C10. When the response of the secret store has no \<^verbatim>\<open>'SecretString'\<close> entry,
  \<^verbatim>\<open>_get_aws_secret\<close> returns \<^verbatim>\<open>None\<close> and raises nothing (its trace holds the
  announcement and the call, no error); the failure appears in the caller, where the test
  for the required keys on \<^verbatim>\<open>None\<close> raises TypeError.
\<close>

theorem missing_secret_string:
  assumes "w_get_secret_value w (aws_secret_name a) (aws_region a) = Inr None"
  shows "get_aws_secret w (aws_secret_name a) (aws_region a) s
           = (Inr PyNone,
              s\<lparr>trace := trace s
                   @ [Log INFO (''Retrieving credentials from AWS Secrets Manager: '' @ aws_secret_name a),
                      GetSecretValue (aws_secret_name a) (aws_region a)]\<rparr>)
       \<and> fst (mssql_credentials w a s) = Inl (TypeError ''argument of type NoneType is not iterable'')"
proof
  show "get_aws_secret w (aws_secret_name a) (aws_region a) s
           = (Inr PyNone,
              s\<lparr>trace := trace s
                   @ [Log INFO (''Retrieving credentials from AWS Secrets Manager: '' @ aws_secret_name a),
                      GetSecretValue (aws_secret_name a) (aws_region a)]\<rparr>)"
    using assms
    by (simp add: get_aws_secret_def get_secret_value_def bind_def try_except_def log_def emit_def
        lift_def ret_def)
  show "fst (mssql_credentials w a s) = Inl (TypeError ''argument of type NoneType is not iterable'')"
    by (rule wp_fst_Inl) (use assms in \<open>simp add: secret_defs\<close>)
qed

theorem missing_secret_string_witness:
  "fst (get_aws_secret (demo_world\<lparr>w_get_secret_value := \<lambda>name region. Inr None\<rparr>)
          ''mssql'' ''us-east-1'' (start empty_server)) = Inr PyNone
   \<and> fst (mssql_credentials (demo_world\<lparr>w_get_secret_value := \<lambda>name region. Inr None\<rparr>)
          demo_args (start empty_server))
       = Inl (TypeError ''argument of type NoneType is not iterable'')"
  using missing_secret_string [of "demo_world\<lparr>w_get_secret_value := \<lambda>name region. Inr None\<rparr>"
          demo_args "start empty_server"]
  by (simp add: demo_args_def)

section \<open>Reading a trace, piece by piece\<close>

lemma ps_calls_append [simp]: "ps_calls (xs @ ys) = ps_calls xs @ ps_calls ys"
  by (induction xs rule: ps_calls.induct) simp_all

lemma ssh_execs_append [simp]: "ssh_execs (xs @ ys) = ssh_execs xs @ ssh_execs ys"
  by (induction xs rule: ssh_execs.induct) simp_all

lemma warnings_append [simp]: "warnings (xs @ ys) = warnings xs @ warnings ys"
  by (induction xs rule: warnings.induct) simp_all

lemma executes_append [simp]: "executes (xs @ ys) = executes xs @ executes ys"
  by (induction xs rule: executes.induct) simp_all

lemma winrm_calls_append [simp]: "winrm_calls (xs @ ys) = winrm_calls xs @ winrm_calls ys"
  by (simp add: winrm_calls_def)

section \<open>The inserts are parameterized\<close>



section \<open>What a statement leaves alone\<close>

lemma keeps_ret: "keeps f (ret x)"
  by (simp add: keeps_def ret_def)

lemma keeps_raise: "keeps f (raise e)"
  by (simp add: keeps_def raise_def)

lemma keeps_lift: "keeps f (lift r)"
  by (simp add: keeps_def lift_def)

lemma keeps_bind: "keeps f m \<Longrightarrow> (\<And>x. keeps f (k x)) \<Longrightarrow> keeps f (bind m k)"
  by (auto simp: keeps_def bind_def split: prod.splits sum.splits) (metis snd_conv)+

lemma keeps_try_except: "keeps f m \<Longrightarrow> (\<And>e. keeps f (h e)) \<Longrightarrow> keeps f (try_except m h)"
  by (auto simp: keeps_def try_except_def split: prod.splits sum.splits) (metis snd_conv)+

lemma keeps_steps_Nil: "keeps f (steps [])"
  by (simp add: steps.simps keeps_ret)

lemma keeps_steps_Cons: "keeps f m \<Longrightarrow> keeps f (steps ms) \<Longrightarrow> keeps f (steps (m # ms))"
  by (simp add: steps.simps keeps_bind)

lemma keeps_if: "(b \<Longrightarrow> keeps f m) \<Longrightarrow> (\<not> b \<Longrightarrow> keeps f n) \<Longrightarrow> keeps f (if b then m else n)"
  by simp

lemma keeps_case_prod: "(\<And>a b. keeps f (k a b)) \<Longrightarrow> keeps f (case p of (a, b) \<Rightarrow> k a b)"
  by (cases p) simp

lemma keeps_case_option:
  "keeps f m \<Longrightarrow> (\<And>x. keeps f (k x)) \<Longrightarrow> keeps f (case r of None \<Rightarrow> m | Some x \<Rightarrow> k x)"
  by (cases r) simp_all

lemma keeps_let: "keeps f (k v) \<Longrightarrow> keeps f (let x = v in k x)"
  by simp

lemmas keeps_rules = keeps_ret keeps_raise keeps_lift keeps_bind keeps_try_except keeps_steps_Nil
  keeps_steps_Cons keeps_if keeps_case_prod keeps_case_option keeps_let

text \<open>The events of the command bridge in the trace.\<close>

lemma bridge_emit: "\<not> is_winrm ev \<Longrightarrow> keeps (\<lambda>s. winrm_calls (trace s)) (emit ev)"
  by (simp add: keeps_def emit_def winrm_calls_def)

lemma bridge_log: "keeps (\<lambda>s. winrm_calls (trace s)) (log lv msg)"
  by (simp add: log_def bridge_emit)

lemma bridge_db_call: "keeps (\<lambda>s. winrm_calls (trace s)) (db_call w c dc)"
  by (simp add: keeps_def db_call_def Let_def winrm_calls_def split: sum.split prod.split)

lemma bridge_db: "keeps (\<lambda>s. winrm_calls (trace s)) (db w c dc)"
  by (simp add: db_def keeps_bind keeps_ret bridge_db_call)

lemma bridge_ssh_connect: "keeps (\<lambda>s. winrm_calls (trace s)) (ssh_connect w h u k t)"
  by (simp add: keeps_def ssh_connect_def Let_def winrm_calls_def split: option.split)

lemma bridge_ssh_close: "keeps (\<lambda>s. winrm_calls (trace s)) (ssh_close w)"
  by (simp add: keeps_def ssh_close_def Let_def winrm_calls_def split: option.split)

lemma bridge_exec_command: "keeps (\<lambda>s. winrm_calls (trace s)) (exec_command w cmd)"
  by (simp add: exec_command_def keeps_bind keeps_lift bridge_emit)

lemma bridge_insert_rows: "keeps (\<lambda>s. winrm_calls (trace s)) (insert_rows w c data)"
  by (induction data) (auto intro!: keeps_rules bridge_db)

lemma bridge_log_rows: "keeps (\<lambda>s. winrm_calls (trace s)) (log_rows rows)"
  by (induction rows) (auto simp: log_row_def intro!: keeps_rules bridge_log)

lemma bridge_ssh_system_information:
  "keeps (\<lambda>s. winrm_calls (trace s)) (ssh_system_information w cmds)"
  by (induction cmds) (auto simp: Let_def intro!: keeps_rules bridge_exec_command bridge_log)

lemmas bridge_rules = bridge_log bridge_db_call bridge_db bridge_ssh_connect bridge_ssh_close
  bridge_exec_command bridge_insert_rows bridge_log_rows bridge_ssh_system_information

lemma bridge_get_aws_secret: "keeps (\<lambda>s. winrm_calls (trace s)) (get_aws_secret w n r)"
  unfolding get_aws_secret_def get_secret_value_def
  by (intro keeps_rules bridge_rules bridge_emit) simp

lemma bridge_mssql: "keeps (\<lambda>s. winrm_calls (trace s)) (perform_mssql_operations w a)"
  unfolding perform_mssql_operations_def mssql_rows_def mssql_body_def mssql_credentials_def
    parse_mssql_url_def mssql_create_database_def mssql_provision_def
  by (intro keeps_rules bridge_rules bridge_get_aws_secret | split list.split | intro conjI allI impI)+

lemma bridge_ssh: "keeps (\<lambda>s. winrm_calls (trace s)) (perform_ssh_operations w a)"
  unfolding perform_ssh_operations_def ssh_body_def ssh_ip_addresses_def ssh_domain_name_def
  by (intro keeps_rules bridge_rules bridge_emit | simp)+

lemma keeps_apply: "keeps f m \<Longrightarrow> f (snd (m s)) = f s"
  by (simp add: keeps_def)

lemma guarded_run_body:
  "prevent_winrm_recursion self \<Longrightarrow> keeps (\<lambda>s. winrm_calls (trace s)) (run_body w self)"
  unfolding run_body_def
  by (intro keeps_rules bridge_rules bridge_mssql bridge_ssh | simp)+

lemma guarded_run:
  assumes "prevent_winrm_recursion self"
  shows "winrm_calls (trace (snd (run w self s))) = winrm_calls (trace s)"
proof -
  have "winrm_calls (trace (snd (run_body w self s))) = winrm_calls (trace s)"
    using keeps_apply [OF guarded_run_body [OF assms]] .
  then show ?thesis
    by (auto simp: run_def log_def emit_def winrm_calls_def split: prod.splits sum.splits)
qed

lemma ps_calls_winrm_calls: "ps_calls (winrm_calls tr) = ps_calls tr"
  unfolding winrm_calls_def by (induction tr rule: ps_calls.induct) simp_all

lemmas sql_texts = create_database_sql_def create_schema_sql_def create_table_sql_def insert_sql_def
  select_sql_def table_name_def schema_name_def q_def nl_def sp12_def sp16_def
  create_database_prefix_def

lemmas server_defs = sql_execute_def created_database_def sql_ok_def sql_error_def update_db_def

lemmas mssql_defs = perform_mssql_operations_def mssql_rows_def mssql_body_def mssql_credentials_def
  get_aws_secret_def get_secret_value_def parse_mssql_url_def mssql_create_database_def
  mssql_provision_def sample_data_def log_row_def

lemmas ssh_defs = perform_ssh_operations_def ssh_body_def ssh_ip_addresses_def ssh_domain_name_def
  ssh_commands_def exec_command_def

lemmas winrm_defs = perform_winrm_operations_def winrm_body_def winrm_session_def winrm_probe_def
  winrm_dispatch_def run_ps_def

lemmas demo_defs = demo_world_def demo_args_def demo_secret_def demo_ssh_exec_def demo_argv_def
  start_def empty_server_def


section \<open>The server on the statements of the script\<close>








section \<open>Provisioning against the server\<close>



lemma field_emit: "(\<And>s tr. f (s\<lparr>trace := tr\<rparr>) = f s) \<Longrightarrow> keeps f (emit ev)"
  by (simp add: keeps_def emit_def)

lemma field_log: "(\<And>s tr. f (s\<lparr>trace := tr\<rparr>) = f s) \<Longrightarrow> keeps f (log lv msg)"
  by (simp add: log_def field_emit)

lemma field_log_rows: "(\<And>s tr. f (s\<lparr>trace := tr\<rparr>) = f s) \<Longrightarrow> keeps f (log_rows rows)"
  by (induction rows) (auto simp: log_row_def intro!: keeps_rules field_log)














section \<open>The concrete world, field by field\<close>







section \<open>Reading the sample rows back\<close>




end
